theory Spec2Isabelle
  imports Complex_Main
begin

section \<open>Python strings\<close>

text \<open>
  Strings are lists of 8-bit characters.  The functions of this section are the
  methods of Python's \<open>str\<close> that \<open>cmdstanpy/utils.py\<close> calls, restricted to the
  argument shapes that occur there.
\<close>

definition isspace :: "char \<Rightarrow> bool" where
  \<comment> \<open>the code points below 256 that \<open>str.isspace\<close> accepts\<close>
  "isspace c = (c \<in> {CHR 0x09, CHR 0x0A, CHR 0x0B, CHR 0x0C, CHR 0x0D,
                      CHR 0x1C, CHR 0x1D, CHR 0x1E, CHR 0x1F, CHR 0x20, CHR 0x85, CHR 0xA0})"

definition lstrip :: "string \<Rightarrow> string" where
  "lstrip s = dropWhile isspace s"

definition rstrip :: "string \<Rightarrow> string" where
  "rstrip s = rev (dropWhile isspace (rev s))"

definition strip :: "string \<Rightarrow> string" where
  \<comment> \<open>\<open>s.strip()\<close>\<close>
  "strip s = rstrip (lstrip s)"

definition lstrip_chars :: "string \<Rightarrow> string \<Rightarrow> string" where
  \<comment> \<open>\<open>s.lstrip(chars)\<close>\<close>
  "lstrip_chars chars s = dropWhile (\<lambda>c. c \<in> set chars) s"

definition startswith :: "string \<Rightarrow> string \<Rightarrow> bool" where
  "startswith s p = (take (length p) s = p)"

definition endswith :: "string \<Rightarrow> string \<Rightarrow> bool" where
  "endswith s p = (length p \<le> length s \<and> drop (length s - length p) s = p)"

fun str_contains :: "string \<Rightarrow> string \<Rightarrow> bool" where
  \<comment> \<open>\<open>sub in s\<close>\<close>
  "str_contains sub [] = (sub = [])"
| "str_contains sub (c # cs) = (startswith (c # cs) sub \<or> str_contains sub cs)"

function py_split :: "string \<Rightarrow> string \<Rightarrow> string list" where
  \<comment> \<open>\<open>s.split(sep)\<close> for a non-empty separator\<close>
  "py_split sep [] = [[]]"
| "py_split sep (c # cs) =
     (if sep \<noteq> [] \<and> startswith (c # cs) sep
      then [] # py_split sep (drop (length sep) (c # cs))
      else (case py_split sep cs of
              [] \<Rightarrow> [[c]]
            | p # ps \<Rightarrow> (c # p) # ps))"
  by pat_completeness auto
termination
  by (relation "measure (\<lambda>(sep, s). length s)") (auto simp: neq_Nil_conv)

fun py_join :: "string \<Rightarrow> string list \<Rightarrow> string" where
  \<comment> \<open>\<open>sep.join(xs)\<close>\<close>
  "py_join sep [] = []"
| "py_join sep [x] = x"
| "py_join sep (x # y # ys) = x @ sep @ py_join sep (y # ys)"

definition py_remove :: "char \<Rightarrow> string \<Rightarrow> string" where
  \<comment> \<open>\<open>s.replace(c, '')\<close> for a single character \<open>c\<close>\<close>
  "py_remove c s = filter (\<lambda>x. x \<noteq> c) s"

subsection \<open>Decimal integers\<close>

definition digit_char :: "nat \<Rightarrow> char" where
  \<comment> \<open>the digit of a number below ten\<close>
  "digit_char n = ''0123456789'' ! n"

definition isdigit :: "char \<Rightarrow> bool" where
  "isdigit c = (c \<in> set ''0123456789'')"

definition digit_val :: "char \<Rightarrow> nat" where
  "digit_val c = of_char c - 48"

function str_nat :: "nat \<Rightarrow> string" where
  "str_nat n = (if n < 10 then [digit_char n] else str_nat (n div 10) @ [digit_char (n mod 10)])"
  by pat_completeness auto
termination
  by (relation "measure id") auto

declare str_nat.simps [simp del]

definition str_int :: "int \<Rightarrow> string" where
  \<comment> \<open>\<open>str(i)\<close> of a Python int\<close>
  "str_int i = (if i < 0 then CHR ''-'' # str_nat (nat (- i)) else str_nat (nat i))"

fun digits_acc :: "nat \<Rightarrow> string \<Rightarrow> nat option" where
  \<comment> \<open>digits, with single underscores allowed between two digits\<close>
  "digits_acc a [] = Some a"
| "digits_acc a (c # cs) =
     (if isdigit c then digits_acc (10 * a + digit_val c) cs
      else if c = CHR ''_'' then
        (case cs of [] \<Rightarrow> None | d # ds \<Rightarrow> if isdigit d then digits_acc a cs else None)
      else None)"

definition int_digits :: "string \<Rightarrow> nat option" where
  "int_digits s = (case s of [] \<Rightarrow> None | c # cs \<Rightarrow> if isdigit c then digits_acc 0 s else None)"

definition isspace_num :: "char \<Rightarrow> bool" where
  \<comment> \<open>the whitespace that \<open>int\<close> and \<open>float\<close> skip at the ends of a string: the C whitespace
      below 128 and the Unicode whitespace above; unlike \<open>str.strip\<close>, not \<open>0x1C\<close> to \<open>0x1F\<close>\<close>
  "isspace_num c = (c \<in> {CHR 0x09, CHR 0x0A, CHR 0x0B, CHR 0x0C, CHR 0x0D, CHR 0x20, CHR 0x85, CHR 0xA0})"

definition strip_num :: "string \<Rightarrow> string" where
  "strip_num s = rev (dropWhile isspace_num (rev (dropWhile isspace_num s)))"

definition py_int :: "string \<Rightarrow> int option" where
  \<comment> \<open>\<open>int(s)\<close> of a string in base ten; \<open>None\<close> stands for \<open>ValueError\<close>\<close>
  "py_int s =
     (case strip_num s of
        [] \<Rightarrow> None
      | c # cs \<Rightarrow>
          if c = CHR ''-'' then map_option (\<lambda>n. - int n) (int_digits cs)
          else if c = CHR ''+'' then map_option int (int_digits cs)
          else map_option int (int_digits (c # cs)))"

subsection \<open>Floating-point text\<close>

text \<open>
  The conversions between 64-bit floats and text are those of the Python runtime, not of
  this repository, so they are parameters of the model: \<open>float_str\<close> is \<open>str\<close> on a
  float, \<open>float_lit\<close> converts a literal without surrounding whitespace (\<open>None\<close> when
  Python raises \<open>ValueError\<close>), \<open>float_of_int\<close> is the conversion numpy applies to
  an int stored among floats.
\<close>

record 'f float_ops =
  float_str :: "'f \<Rightarrow> string"
  float_lit :: "string \<Rightarrow> 'f option"
  float_of_int :: "int \<Rightarrow> 'f"

definition py_float :: "'f float_ops \<Rightarrow> string \<Rightarrow> 'f option" where
  \<comment> \<open>\<open>float(s)\<close>: surrounding whitespace is ignored\<close>
  "py_float ops s = float_lit ops (strip_num s)"

section \<open>Errors and values\<close>

datatype py_error =
    ValueError string
  | TypeError
  | KeyError string
  | IndexError
  | ZeroDivisionError

datatype 'f meta =
    MStr string
  | MInt int
  | MTuple "string list"
  | MNone
  | MArray "'f list"

type_synonym 'f config = "string \<rightharpoonup> 'f meta"

section \<open>The run-output scanner\<close>

text \<open>
  The open file \<open>fp\<close> is the list of lines not yet read: \<open>fp.tell()\<close> is that list and
  \<open>fp.seek(cur_pos)\<close> puts an earlier one back.  Each scan function returns the new line
  number, the updated dictionary and the file.
\<close>

definition readline :: "string list \<Rightarrow> string \<times> string list" where
  \<comment> \<open>the empty string at the end of the file\<close>
  "readline fp = (case fp of [] \<Rightarrow> ([], []) | l # ls \<Rightarrow> (l, ls))"

definition config_entry :: "'f config \<Rightarrow> string \<Rightarrow> 'f config" where
  \<comment> \<open>the body of the loop of \<open>scan_config\<close>, on the stripped line\<close>
  "config_entry config_dict line0 =
     (if \<not> endswith line0 ''(Default)'' then
        (let line = lstrip_chars [CHR '' '', CHR ''#'', CHR 0x09] line0;
             key_val = py_split ''='' line
         in if length key_val = 2 then
              (if strip (key_val ! 0) = ''file'' \<and> \<not> endswith (key_val ! 1) ''csv''
               then config_dict(''data_file'' \<mapsto> MStr (strip (key_val ! 1)))
               else if strip (key_val ! 0) \<noteq> ''file''
               then config_dict(strip (key_val ! 0) \<mapsto> MStr (strip (key_val ! 1)))
               else config_dict)
            else config_dict)
      else config_dict)"

fun scan_config :: "string list \<Rightarrow> 'f config \<Rightarrow> nat \<Rightarrow> nat \<times> 'f config \<times> string list" where
  "scan_config [] config_dict lineno = (lineno, config_dict, [])"
| "scan_config (l # ls) config_dict lineno =
     (let line = strip l
      in if line \<noteq> [] \<and> startswith line ''#''
         then scan_config ls (config_entry config_dict line) (lineno + 1)
         else (lineno, config_dict, l # ls))"

fun scan_warmup_loop :: "string list \<Rightarrow> nat \<Rightarrow> nat \<times> string list" where
  "scan_warmup_loop [] lineno = (lineno, [])"
| "scan_warmup_loop (l # ls) lineno =
     (let line = strip l
      in if line \<noteq> [] \<and> \<not> startswith line ''#''
         then scan_warmup_loop ls (lineno + 1)
         else (lineno, l # ls))"

definition scan_warmup :: "string list \<Rightarrow> 'f config \<Rightarrow> nat \<Rightarrow> nat \<times> 'f config \<times> string list" where
  "scan_warmup fp config_dict lineno =
     (if config_dict ''save_warmup'' = None then (lineno, config_dict, fp)
      else (let (lineno', fp') = scan_warmup_loop fp lineno in (lineno', config_dict, fp')))"

definition scan_column_names ::
  "string list \<Rightarrow> 'f config \<Rightarrow> nat \<Rightarrow> nat \<times> 'f config \<times> string list" where
  "scan_column_names fp config_dict lineno =
     (let (l, fp') = readline fp;
          line = strip l;
          names = py_split '','' line
      in (lineno + 1,
          config_dict(''column_names'' \<mapsto> MTuple names,
                      ''num_params'' \<mapsto> MInt (int (length names) - 1)),
          fp'))"

definition mass_matrix_error :: "nat \<Rightarrow> py_error" where
  "mass_matrix_error lineno =
     ValueError (''line '' @ str_nat lineno @ '': invalid or missing mass matrix specification'')"

fun scan_metric_rows :: "nat \<Rightarrow> nat \<Rightarrow> string list \<Rightarrow> nat \<Rightarrow> py_error + nat \<times> string list" where
  \<comment> \<open>the loop \<open>for i in range(1, num_params)\<close>, by the number of rounds left\<close>
  "scan_metric_rows 0 num_params fp lineno = Inr (lineno, fp)"
| "scan_metric_rows (Suc k) num_params fp lineno =
     (let (l, fp') = readline fp;
          line = lstrip_chars [CHR '' '', CHR ''#'', CHR 0x09] l
      in if length (py_split '','' line) \<noteq> num_params
         then Inl (mass_matrix_error (lineno + 1))
         else scan_metric_rows k num_params fp' (lineno + 1))"

definition scan_metric ::
  "'f float_ops \<Rightarrow> string list \<Rightarrow> 'f config \<Rightarrow> nat \<Rightarrow> py_error + nat \<times> 'f config \<times> string list" where
  "scan_metric ops fp config_dict0 lineno0 =
     (let config_dict = (if config_dict0 ''metric'' = None
                         then config_dict0(''metric'' \<mapsto> MStr ''diag_e'') else config_dict0);
          metric = config_dict ''metric'';
          (l1, fp1) = readline fp;
          line1 = strip l1
      in if line1 \<noteq> ''# Adaptation terminated''
         then Inl (ValueError (''line '' @ str_nat (lineno0 + 1) @ '': expecting metric, found:''
                     @ [CHR 0x0A, CHR 0x09, CHR '' '', CHR 0x22] @ line1 @ [CHR 0x22]))
         else
      (let (l2, fp2) = readline fp1;
           line2 = strip l2;
           parts = py_split ''='' line2
       in if length parts \<noteq> 2
          then Inl (ValueError ''cannot unpack the split step size line into label, stepsize'')
          else
       (let label = parts ! 0; stepsize = parts ! 1
        in if \<not> startswith label ''# Step size''
           then Inl (ValueError (''line '' @ str_nat (lineno0 + 2) @ '': expecting stepsize, found:''
                       @ [CHR 0x0A, CHR 0x09, CHR '' '', CHR 0x22] @ line2 @ [CHR 0x22]))
           else if py_float ops (strip stepsize) = None
           then Inl (ValueError (''line '' @ str_nat (lineno0 + 2) @ '': invalid stepsize: '' @ stepsize))
           else
        (let (l3, fp3) = readline fp2;
             line3 = strip l3
         in if \<not> ((metric = Some (MStr ''diag_e'')
                     \<and> line3 = ''# Diagonal elements of inverse mass matrix:'')
                  \<or> (metric = Some (MStr ''dense_e'')
                     \<and> line3 = ''# Elements of inverse mass matrix:''))
            then Inl (mass_matrix_error (lineno0 + 3))
            else
         (let (l4, fp4) = readline fp3;
              line4 = lstrip_chars [CHR '' '', CHR ''#'', CHR 0x09] l4;
              num_params = length (py_split '','' line4);
              config_dict' = config_dict(''num_params'' \<mapsto> MInt (int num_params))
          in if metric = Some (MStr ''diag_e'')
             then Inr (lineno0 + 4, config_dict', fp4)
             else (case scan_metric_rows (num_params - 1) num_params fp4 (lineno0 + 4) of
                     Inl e \<Rightarrow> Inl e
                   | Inr (lineno, fp5) \<Rightarrow> Inr (lineno, config_dict', fp5)))))))"

definition py_len :: "'f meta \<Rightarrow> py_error + nat" where
  \<comment> \<open>\<open>len(v)\<close> of a dictionary value\<close>
  "py_len v = (case v of MStr s \<Rightarrow> Inr (length s) | MTuple xs \<Rightarrow> Inr (length xs)
               | MArray xs \<Rightarrow> Inr (length xs) | MInt i \<Rightarrow> Inl TypeError | MNone \<Rightarrow> Inl TypeError)"

fun float_array :: "'f float_ops \<Rightarrow> string list \<Rightarrow> 'f list option" where
  \<comment> \<open>\<open>np.array(data, dtype=np.float64)\<close> on a list of strings; \<open>None\<close> is \<open>ValueError\<close>\<close>
  "float_array ops [] = Some []"
| "float_array ops (s # ss) =
     (case py_float ops s of
        None \<Rightarrow> None
      | Some x \<Rightarrow> (case float_array ops ss of None \<Rightarrow> None | Some xs \<Rightarrow> Some (x # xs)))"

definition bad_draw_error :: "nat \<Rightarrow> nat \<Rightarrow> nat \<Rightarrow> py_error" where
  "bad_draw_error lineno num_cols found =
     ValueError (''line '' @ str_nat lineno @ '': bad draw, expecting '' @ str_nat num_cols
                 @ '' items, found '' @ str_nat found)"

fun scan_draws_loop ::
  "'f float_ops \<Rightarrow> nat \<Rightarrow> string list \<Rightarrow> nat \<Rightarrow> nat \<Rightarrow> 'f list option
     \<Rightarrow> py_error + nat \<times> nat \<times> 'f list option \<times> string list" where
  "scan_draws_loop ops num_cols [] lineno draws_found first_draw =
     Inr (lineno, draws_found, first_draw, [])"
| "scan_draws_loop ops num_cols (l # ls) lineno draws_found first_draw =
     (let line = strip l
      in if line \<noteq> [] \<and> \<not> startswith line ''#'' then
           (let data = py_split '','' line
            in if length data \<noteq> num_cols
               then Inl (bad_draw_error (lineno + 1) num_cols (length (py_split '','' line)))
               else (case first_draw of
                       None \<Rightarrow>
                         (case float_array ops data of
                            None \<Rightarrow> Inl (ValueError ''could not convert string to float'')
                          | Some a \<Rightarrow> scan_draws_loop ops num_cols ls (lineno + 1) (draws_found + 1) (Some a))
                     | Some a \<Rightarrow> scan_draws_loop ops num_cols ls (lineno + 1) (draws_found + 1) (Some a)))
         else Inr (lineno, draws_found, first_draw, l # ls))"

definition scan_draws ::
  "'f float_ops \<Rightarrow> string list \<Rightarrow> 'f config \<Rightarrow> nat \<Rightarrow> py_error + nat \<times> 'f config \<times> string list" where
  "scan_draws ops fp config_dict lineno =
     (case config_dict ''column_names'' of
        None \<Rightarrow> Inl (KeyError ''column_names'')
      | Some names \<Rightarrow>
          (case py_len names of
             Inl e \<Rightarrow> Inl e
           | Inr num_cols \<Rightarrow>
               (case scan_draws_loop ops num_cols fp lineno 0 None of
                  Inl e \<Rightarrow> Inl e
                | Inr (lineno', draws_found, first_draw, fp') \<Rightarrow>
                    Inr (lineno',
                         config_dict(''draws'' \<mapsto> MInt (int draws_found),
                                     ''first_draw'' \<mapsto> (case first_draw of None \<Rightarrow> MNone | Some a \<Rightarrow> MArray a)),
                         fp'))))"

definition scan_stan_csv :: "'f float_ops \<Rightarrow> string list \<Rightarrow> bool \<Rightarrow> py_error + 'f config" where
  "scan_stan_csv ops fp is_sampling =
     (let (lineno1, dict1, fp1) = scan_config fp Map.empty 0;
          (lineno2, dict2, fp2) = scan_column_names fp1 dict1 lineno1;
          (lineno3, dict3, fp3) = scan_warmup fp2 dict2 lineno2
      in case (if is_sampling then scan_metric ops fp3 dict3 lineno3 else Inr (lineno3, dict3, fp3)) of
           Inl e \<Rightarrow> Inl e
         | Inr (lineno4, dict4, fp4) \<Rightarrow>
             (case scan_draws ops fp4 dict4 lineno4 of
                Inl e \<Rightarrow> Inl e
              | Inr (lineno5, dict5, fp5) \<Rightarrow> Inr dict5))"

section \<open>The run-output validator\<close>

definition meta_int :: "'f meta \<Rightarrow> py_error + int" where
  \<comment> \<open>\<open>int(v)\<close> of a dictionary value\<close>
  "meta_int v =
     (case v of
        MInt i \<Rightarrow> Inr i
      | MStr s \<Rightarrow> (case py_int s of None \<Rightarrow> Inl (ValueError ''invalid literal for int()'') | Some i \<Rightarrow> Inr i)
      | _ \<Rightarrow> Inl TypeError)"

definition ceil_div :: "int \<Rightarrow> 'f meta \<Rightarrow> py_error + int" where
  \<comment> \<open>\<open>int(math.ceil(a / v))\<close>: the division is defined between numbers only\<close>
  "ceil_div a v =
     (case v of
        MInt b \<Rightarrow> if b = 0 then Inl ZeroDivisionError else Inr (- ((- a) div b))
      | _ \<Rightarrow> Inl TypeError)"

definition draws_spec_of :: "'f config \<Rightarrow> bool \<Rightarrow> py_error + int" where
  "draws_spec_of meta is_optimizing =
     (if is_optimizing then Inr 1
      else (case meta_int (case meta ''num_samples'' of None \<Rightarrow> MInt 1000 | Some v \<Rightarrow> v) of
              Inl e \<Rightarrow> Inl e
            | Inr draws_spec \<Rightarrow>
                (case meta ''thin'' of
                   None \<Rightarrow> Inr draws_spec
                 | Some thin \<Rightarrow> ceil_div draws_spec thin)))"

definition draw_count_error :: "string \<Rightarrow> int \<Rightarrow> 'f meta \<Rightarrow> py_error" where
  "draw_count_error path draws_spec found =
     ValueError (''bad csv file '' @ path @ '', expected '' @ str_int draws_spec @ '' draws, found ''
                 @ (case found of MInt n \<Rightarrow> str_int n | _ \<Rightarrow> ''?''))"

definition check_csv ::
  "'f float_ops \<Rightarrow> string \<Rightarrow> string list \<Rightarrow> bool \<Rightarrow> bool \<Rightarrow> py_error + 'f config" where
  \<comment> \<open>\<open>path\<close> names the file whose lines are \<open>fp\<close>\<close>
  "check_csv ops path fp is_optimizing is_sampling =
     (case scan_stan_csv ops fp is_sampling of
        Inl e \<Rightarrow> Inl e
      | Inr meta \<Rightarrow>
          (case draws_spec_of meta is_optimizing of
             Inl e \<Rightarrow> Inl e
           | Inr draws_spec \<Rightarrow>
               (case meta ''draws'' of
                  None \<Rightarrow> Inl (KeyError ''draws'')
                | Some found \<Rightarrow>
                    if found \<noteq> MInt draws_spec
                    then Inl (draw_count_error path draws_spec found)
                    else Inr meta)))"

section \<open>The dump codec\<close>

subsection \<open>Values\<close>

text \<open>
  A value of the mapping handed to \<open>rdump\<close>, or returned by \<open>rload\<close>, is a Python int, a
  Python float, a list of numbers, or a numpy array.  An array is its shape and its elements
  in row-major (C) order, all ints or all floats according to its dtype.
\<close>

datatype 'f num = NInt int | NFloat 'f

datatype 'f arrdata = IntData "int list" | FloatData "'f list"

datatype 'f pyval =
    PyInt int
  | PyFloat 'f
  | PyList "'f num list"
  | NdArray "nat list" "'f arrdata"

definition data_size :: "'f arrdata \<Rightarrow> nat" where
  "data_size d = (case d of IntData xs \<Rightarrow> length xs | FloatData xs \<Rightarrow> length xs)"

definition wf_array :: "nat list \<Rightarrow> 'f arrdata \<Rightarrow> bool" where
  \<comment> \<open>the buffer holds \<open>val.size\<close> elements\<close>
  "wf_array shape d = (data_size d = prod_list shape)"

subsection \<open>Index order\<close>

fun unravel_f :: "nat list \<Rightarrow> nat \<Rightarrow> nat list" where
  \<comment> \<open>the multi-index at position \<open>k\<close> of the column-major (Fortran) order\<close>
  "unravel_f [] k = []"
| "unravel_f (d # ds) k = (k mod d) # unravel_f ds (k div d)"

fun ravel_f :: "nat list \<Rightarrow> nat list \<Rightarrow> nat" where
  "ravel_f (d # ds) (i # is) = i + d * ravel_f ds is"
| "ravel_f ds is = 0"

fun unravel_c :: "nat list \<Rightarrow> nat \<Rightarrow> nat list" where
  \<comment> \<open>the multi-index at position \<open>k\<close> of the row-major (C) order\<close>
  "unravel_c [] k = []"
| "unravel_c (d # ds) k = (k div prod_list ds) # unravel_c ds (k mod prod_list ds)"

fun ravel_c :: "nat list \<Rightarrow> nat list \<Rightarrow> nat" where
  "ravel_c (d # ds) (i # is) = i * prod_list ds + ravel_c ds is"
| "ravel_c ds is = 0"

definition t_flat :: "nat list \<Rightarrow> 'a list \<Rightarrow> 'a list" where
  \<comment> \<open>\<open>val.T.flat\<close>: the elements of \<open>val\<close> in column-major order\<close>
  "t_flat shape xs = map (\<lambda>k. xs ! ravel_c shape (unravel_f shape k)) [0..<prod_list shape]"

definition reshape_f :: "nat list \<Rightarrow> 'a list \<Rightarrow> 'a list" where
  \<comment> \<open>the row-major elements of \<open>np.array(vals).reshape(shape, order='F')\<close>\<close>
  "reshape_f shape vals = map (\<lambda>k. vals ! ravel_f shape (unravel_c shape k)) [0..<prod_list shape]"

definition reshape_dims :: "nat \<Rightarrow> int list \<Rightarrow> nat list option" where
  \<comment> \<open>the shape that \<open>reshape\<close> gives \<open>n\<close> elements; one dimension may be negative and is
      then computed from the others; \<open>None\<close> is \<open>ValueError\<close>\<close>
  "reshape_dims n dims =
     (let known = prod_list (filter (\<lambda>d. 0 \<le> d) dims)
      in case filter (\<lambda>d. d < 0) dims of
           [] \<Rightarrow> if known = int n then Some (map nat dims) else None
         | [u] \<Rightarrow>
             if known \<noteq> 0 \<and> int n mod known = 0
             then Some (map (\<lambda>d. if d < 0 then nat (int n div known) else nat d) dims)
             else None
         | _ \<Rightarrow> None)"

subsection \<open>Encoding\<close>

definition str_tuple :: "nat list \<Rightarrow> string" where
  \<comment> \<open>\<open>str\<close> of a tuple of ints\<close>
  "str_tuple xs =
     (case xs of
        [] \<Rightarrow> ''()''
      | [x] \<Rightarrow> ''('' @ str_nat x @ '',)''
      | _ \<Rightarrow> ''('' @ py_join '', '' (map str_nat xs) @ '')'')"

definition str_elems :: "'f float_ops \<Rightarrow> 'f arrdata \<Rightarrow> string list" where
  \<comment> \<open>\<open>str\<close> of each element of the buffer\<close>
  "str_elems ops d =
     (case d of IntData xs \<Rightarrow> map str_int xs | FloatData xs \<Rightarrow> map (float_str ops) xs)"

definition str_num :: "'f float_ops \<Rightarrow> 'f num \<Rightarrow> string" where
  "str_num ops x = (case x of NInt i \<Rightarrow> str_int i | NFloat y \<Rightarrow> float_str ops y)"

definition rdump_array :: "'f float_ops \<Rightarrow> string \<Rightarrow> nat list \<Rightarrow> 'f arrdata \<Rightarrow> string" where
  \<comment> \<open>\<open>_rdump_array(key, val)\<close> for the array of shape \<open>shape\<close> and buffer \<open>d\<close>\<close>
  "rdump_array ops key shape d =
     (let c = ''c('' @ py_join '', '' (t_flat shape (str_elems ops d)) @ '')''
      in if [prod_list shape] = shape
         then key @ '' <- '' @ c
         else (let dim = ''.Dim = c'' @ str_tuple shape
               in key @ '' <- structure('' @ c @ '', '' @ dim @ '')''))"

definition is_int_num :: "'f num \<Rightarrow> bool" where
  "is_int_num x = (case x of NInt i \<Rightarrow> True | NFloat y \<Rightarrow> False)"

definition asarray :: "'f float_ops \<Rightarrow> 'f num list \<Rightarrow> 'f arrdata" where
  \<comment> \<open>the buffer of \<open>np.asarray(val)\<close> for a list of numbers: ints stay ints unless a float
      is among them\<close>
  "asarray ops xs =
     (if list_all is_int_num xs
      then IntData (map (\<lambda>x. case x of NInt i \<Rightarrow> i | NFloat y \<Rightarrow> 0) xs)
      else FloatData (map (\<lambda>x. case x of NInt i \<Rightarrow> float_of_int ops i | NFloat y \<Rightarrow> y) xs))"

definition rdump_line :: "'f float_ops \<Rightarrow> string \<Rightarrow> 'f pyval \<Rightarrow> py_error + string" where
  \<comment> \<open>the body of the loop of \<open>rdump\<close>: the line written for one entry\<close>
  "rdump_line ops key val =
     (case val of
        NdArray shape d \<Rightarrow>
          if prod_list shape > 1 then Inr (rdump_array ops key shape d)
          else (case str_elems ops d of
                  [] \<Rightarrow> Inl IndexError
                | x # _ \<Rightarrow> Inr (key @ '' <- '' @ x))
      | PyList xs \<Rightarrow>
          if length xs > 1 then Inr (rdump_array ops key [length xs] (asarray ops xs))
          else Inr (key @ '' <- '' @ ''['' @ py_join '', '' (map (str_num ops) xs) @ '']'')
      | PyInt i \<Rightarrow> Inr (key @ '' <- '' @ str_int i)
      | PyFloat x \<Rightarrow> Inr (key @ '' <- '' @ float_str ops x))"

fun rdump :: "'f float_ops \<Rightarrow> (string \<times> 'f pyval) list \<Rightarrow> py_error + string" where
  \<comment> \<open>the text written to the file, for the entries of \<open>data\<close> in iteration order\<close>
  "rdump ops [] = Inr []"
| "rdump ops ((key, val) # data) =
     (case rdump_line ops key val of
        Inl e \<Rightarrow> Inl e
      | Inr line \<Rightarrow>
          (case rdump ops data of
             Inl e \<Rightarrow> Inl e
           | Inr text \<Rightarrow> Inr (line @ [CHR 0x0A] @ text)))"

subsection \<open>Decoding\<close>

fun universal_newlines :: "string \<Rightarrow> string" where
  \<comment> \<open>text mode on reading: \<open>\r\n\<close> and \<open>\r\<close> become \<open>\n\<close>\<close>
  "universal_newlines [] = []"
| "universal_newlines [c] = (if c = CHR 0x0D then [CHR 0x0A] else [c])"
| "universal_newlines (c # d # cs) =
     (if c = CHR 0x0D \<and> d = CHR 0x0A then CHR 0x0A # universal_newlines cs
      else if c = CHR 0x0D then CHR 0x0A # universal_newlines (d # cs)
      else c # universal_newlines (d # cs))"

fun readlines :: "string \<Rightarrow> string list" where
  \<comment> \<open>\<open>fp.readlines()\<close>: each line keeps its newline\<close>
  "readlines [] = []"
| "readlines (c # cs) =
     (if c = CHR 0x0A then [c] # readlines cs
      else (case readlines cs of [] \<Rightarrow> [[c]] | l # ls \<Rightarrow> (c # l) # ls))"

definition skip_ws :: "string \<Rightarrow> string" where
  \<comment> \<open>what is left after \<open>\s*\<close>\<close>
  "skip_ws s = dropWhile isspace s"

definition match_dim :: "string \<Rightarrow> (string \<times> string) option" where
  \<comment> \<open>the group \<open>,\s*\.Dim\s*=\s*c\s*\((?P<dims>[^)]*)\s*\)\<close>: \<open>dims\<close> and what follows\<close>
  "match_dim s =
     (if \<not> startswith s '','' then None
      else let s1 = skip_ws (drop 1 s)
      in if \<not> startswith s1 ''.Dim'' then None
      else let s2 = skip_ws (drop 4 s1)
      in if \<not> startswith s2 ''='' then None
      else let s3 = skip_ws (drop 1 s2)
      in if \<not> startswith s3 ''c'' then None
      else let s4 = skip_ws (drop 1 s3)
      in if \<not> startswith s4 ''('' then None
      else let dims = takeWhile (\<lambda>c. c \<noteq> CHR '')'') (drop 1 s4);
               s5 = dropWhile (\<lambda>c. c \<noteq> CHR '')'') (drop 1 s4)
      in if s5 = [] then None else Some (dims, drop 1 s5))"

definition match_structure :: "string \<Rightarrow> (string \<times> string option) option" where
  \<comment> \<open>\<open>pat.match(rhs)\<close>: the groups \<open>vals\<close> and \<open>dims\<close> of
      \<open>structure\(\s*c\((?P<vals>[^)]*)\)(\<dots>)?\)\<close>\<close>
  "match_structure rhs =
     (if \<not> startswith rhs ''structure('' then None
      else let s1 = skip_ws (drop 10 rhs)
      in if \<not> startswith s1 ''c('' then None
      else let vals = takeWhile (\<lambda>c. c \<noteq> CHR '')'') (drop 2 s1);
               s2 = dropWhile (\<lambda>c. c \<noteq> CHR '')'') (drop 2 s1)
      in if s2 = [] then None
      else (case match_dim (drop 1 s2) of
              Some (dims, s3) \<Rightarrow> if startswith s3 '')'' then Some (vals, Some dims) else None
            | None \<Rightarrow> if startswith (drop 1 s2) '')'' then Some (vals, None) else None))"

fun float_list :: "'f float_ops \<Rightarrow> string list \<Rightarrow> 'f list option" where
  \<comment> \<open>\<open>[float(v) for v in items]\<close>; \<open>None\<close> is \<open>ValueError\<close>\<close>
  "float_list ops [] = Some []"
| "float_list ops (s # ss) =
     (case py_float ops s of
        None \<Rightarrow> None
      | Some x \<Rightarrow> (case float_list ops ss of None \<Rightarrow> None | Some xs \<Rightarrow> Some (x # xs)))"

fun int_list :: "string list \<Rightarrow> int list option" where
  \<comment> \<open>\<open>[int(v) for v in items]\<close>\<close>
  "int_list [] = Some []"
| "int_list (s # ss) =
     (case py_int s of
        None \<Rightarrow> None
      | Some x \<Rightarrow> (case int_list ss of None \<Rightarrow> None | Some xs \<Rightarrow> Some (x # xs)))"

definition bad_literal :: "string \<Rightarrow> py_error" where
  \<comment> \<open>the \<open>ValueError\<close> of \<open>float\<close>, \<open>int\<close> and \<open>reshape\<close>\<close>
  "bad_literal s = ValueError (''invalid value: '' @ s)"

definition parse_rdump_value :: "'f float_ops \<Rightarrow> string \<Rightarrow> py_error + 'f pyval" where
  "parse_rdump_value ops rhs =
     (if startswith rhs ''structure'' then
        (case match_structure rhs of
           None \<Rightarrow> Inl (ValueError rhs)
         | Some (vals_text, dims_text) \<Rightarrow>
             (case float_list ops (py_split '','' vals_text) of
                None \<Rightarrow> Inl (bad_literal vals_text)
              | Some vals \<Rightarrow>
                  (case dims_text of
                     None \<Rightarrow> Inr (NdArray [length vals] (FloatData vals))
                   | Some dt \<Rightarrow>
                       (case int_list (py_split '','' dt) of
                          None \<Rightarrow> Inl (bad_literal dt)
                        | Some dims \<Rightarrow>
                            (case reshape_dims (length vals) dims of
                               None \<Rightarrow> Inl (bad_literal dt)
                             | Some shape \<Rightarrow> Inr (NdArray shape (FloatData (reshape_f shape vals))))))))
      else if startswith rhs ''c('' \<and> endswith rhs '')'' then
        (case float_list ops (py_split '','' (butlast (drop 2 rhs))) of
           None \<Rightarrow> Inl (bad_literal rhs)
         | Some vals \<Rightarrow> Inr (NdArray [length vals] (FloatData vals)))
      else if CHR ''.'' \<in> set rhs \<or> CHR ''e'' \<in> set rhs then
        (case py_float ops rhs of None \<Rightarrow> Inl (bad_literal rhs) | Some x \<Rightarrow> Inr (PyFloat x))
      else
        (case py_int rhs of None \<Rightarrow> Inl (bad_literal rhs) | Some i \<Rightarrow> Inr (PyInt i)))"

definition no_arrow :: "string \<Rightarrow> bool" where
  \<comment> \<open>\<open>'<-' not in line\<close>\<close>
  "no_arrow line = (\<not> str_contains ''<-'' line)"

function rload_loop ::
  "'f float_ops \<Rightarrow> string list \<Rightarrow> (string \<rightharpoonup> 'f pyval) \<Rightarrow> py_error + (string \<rightharpoonup> 'f pyval)" where
  \<comment> \<open>the loop \<open>while True\<close> of \<open>rload\<close>; the list starts at \<open>lines[start_idx]\<close>\<close>
  "rload_loop ops [] data_dict = Inr data_dict"
| "rload_loop ops (l # ls) data_dict =
     (let var_data = py_remove (CHR 0x0A) (concat (l # takeWhile no_arrow ls));
          items = map strip (py_split ''<-'' var_data)
      in if length items \<noteq> 2
         then Inl (ValueError ''cannot unpack the split statement into lhs, rhs'')
         else (let lhs = py_remove (CHR 0x22) (items ! 0);
                   rhs = py_remove (CHR ''L'') (items ! 1)
               in case parse_rdump_value ops rhs of
                    Inl e \<Rightarrow> Inl e
                  | Inr v \<Rightarrow>
                      (if dropWhile no_arrow ls = [] then Inr (data_dict(lhs \<mapsto> v))
                       else rload_loop ops (dropWhile no_arrow ls) (data_dict(lhs \<mapsto> v)))))"
  by pat_completeness auto
termination
  by (relation "measure (\<lambda>(ops, ls, d). length ls)")
     (auto simp: less_Suc_eq_le length_dropWhile_le)

definition rload :: "'f float_ops \<Rightarrow> string \<Rightarrow> py_error + (string \<rightharpoonup> 'f pyval) option" where
  \<comment> \<open>\<open>rload(fname)\<close> for the file whose content is \<open>text\<close>; \<open>Inr None\<close> is \<open>return None\<close>\<close>
  "rload ops text =
     (let lines = readlines (universal_newlines text)
      in case dropWhile no_arrow lines of
           [] \<Rightarrow> Inr None
         | l # ls \<Rightarrow>
             (case rload_loop ops (l # ls) Map.empty of
                Inl e \<Rightarrow> Inl e
              | Inr data_dict \<Rightarrow> Inr (Some data_dict)))"

section \<open>Vocabulary of the properties\<close>

definition is_comment_line :: "string \<Rightarrow> bool" where
  "is_comment_line l = (strip l \<noteq> [] \<and> startswith (strip l) ''#'')"

definition is_data_line :: "string \<Rightarrow> bool" where
  "is_data_line l = (strip l \<noteq> [] \<and> \<not> startswith (strip l) ''#'')"

definition config_block :: "string list \<Rightarrow> string list" where
  "config_block fp = takeWhile is_comment_line fp"

definition draw_block :: "string list \<Rightarrow> string list" where
  "draw_block fp = takeWhile is_data_line fp"

definition draw_fields :: "string \<Rightarrow> string list" where
  "draw_fields l = py_split '','' (strip l)"

definition nth_line :: "string list \<Rightarrow> nat \<Rightarrow> string" where
  "nth_line fp i = fst (readline (drop i fp))"

definition metric_field_count :: "string \<Rightarrow> nat" where
  "metric_field_count l = length (py_split '','' (lstrip_chars [CHR '' '', CHR ''#'', CHR 0x09] l))"

definition metric_head_ok :: "'f float_ops \<Rightarrow> string list \<Rightarrow> bool" where
  "metric_head_ok ops fp =
     (strip (nth_line fp 0) = ''# Adaptation terminated''
      \<and> length (py_split ''='' (strip (nth_line fp 1))) = 2
      \<and> startswith (py_split ''='' (strip (nth_line fp 1)) ! 0) ''# Step size''
      \<and> py_float ops (strip (py_split ''='' (strip (nth_line fp 1)) ! 1)) \<noteq> None)"

definition whole_float_str :: "rat \<Rightarrow> string" where
  "whole_float_str x = str_int \<lfloor>x\<rfloor> @ ''.0''"

definition dec_float_lit :: "string \<Rightarrow> rat option" where
  "dec_float_lit s =
     (let neg = (s \<noteq> [] \<and> hd s = CHR ''-'');
          body = (if s \<noteq> [] \<and> (hd s = CHR ''-'' \<or> hd s = CHR ''+'') then tl s else s);
          ip = takeWhile isdigit body;
          rest = dropWhile isdigit body;
          fp = tl rest
      in if (rest = [] \<or> hd rest = CHR ''.'') \<and> list_all isdigit fp \<and> (ip \<noteq> [] \<or> fp \<noteq> [])
         then Some ((if neg then - 1 else 1)
                    * (of_nat (foldl (\<lambda>a c. 10 * a + digit_val c) 0 (ip @ fp)) / 10 ^ length fp))
         else None)"

definition decimal_ops :: "rat float_ops" where
  "decimal_ops = \<lparr>float_str = whole_float_str, float_lit = dec_float_lit, float_of_int = of_int\<rparr>"


definition thin_head :: "string list" where
  "thin_head =
     map (\<lambda>l. l @ [CHR 0x0A])
       [''# num_samples = 1000'', ''# num_warmup = 1000 (Default)'', ''# thin = 3'',
        ''lp__,theta'',
        ''# Adaptation terminated'', ''# Step size = 0.9'',
        ''# Diagonal elements of inverse mass matrix:'', ''# 1.5'']"

definition thin_row :: string where
  "thin_row = ''-7.5,0.25'' @ [CHR 0x0A]"

definition thin_file :: "nat \<Rightarrow> string list" where
  "thin_file n = thin_head @ replicate n thin_row"

definition thin_meta :: "rat config" where
  "thin_meta = [''num_samples'' \<mapsto> MStr ''1000'', ''thin'' \<mapsto> MStr ''3'',
                ''column_names'' \<mapsto> MTuple [''lp__'', ''theta''],
                ''metric'' \<mapsto> MStr ''diag_e'', ''num_params'' \<mapsto> MInt 1]"

definition dense_file :: "string list" where
  "dense_file =
     map (\<lambda>l. l @ [CHR 0x0A])
       [''# Adaptation terminated'', ''# Step size = 0.9'',
        ''# Elements of inverse mass matrix:'', ''# 1, 0.5'', ''# 0.5, 2'', ''0,1,2'']"

definition mismatch_file :: "string list" where
  "mismatch_file =
     map (\<lambda>l. l @ [CHR 0x0A])
       [''# metric = diag_e'', ''lp__,a,b'',
        ''# Adaptation terminated'', ''# Step size = 0.9'',
        ''# Diagonal elements of inverse mass matrix:'', ''# 1.5'', ''0,1,2'']"

definition config_example :: "string list" where
  "config_example =
     map (\<lambda>l. l @ [CHR 0x0A])
       [''# method = sample (Default)'', ''#   num_samples = 200'', ''# file = data.R'',
        ''# file = output.csv'', ''lp__,theta'']"

definition float_text :: "'f float_ops \<Rightarrow> 'f \<Rightarrow> string \<Rightarrow> bool" where
  \<comment> \<open>\<open>str(x)\<close> is \<open>s\<close> and \<open>float(s)\<close> is \<open>x\<close>\<close>
  "float_text ops x s = (float_str ops x = s \<and> float_lit ops s = Some x)"

section \<open>Properties of the run-output scanner\<close>

lemma scan_config_fold:
  "scan_config fp d n =
     (n + length (config_block fp), foldl config_entry d (map strip (config_block fp)),
      drop (length (config_block fp)) fp)"
  by (induction fp arbitrary: d n) (simp_all add: config_block_def is_comment_line_def Let_def)




lemma readline_drop: "readline (drop i fp) = (nth_line fp i, drop (Suc i) fp)"
proof -
  have "drop (Suc i) fp = tl (drop i fp)" by (simp add: drop_Suc tl_drop)
  then show ?thesis by (cases "drop i fp") (auto simp: readline_def nth_line_def)
qed

lemma readline_nth0: "readline fp = (nth_line fp 0, drop 1 fp)"
  using readline_drop[of 0 fp] by simp

lemma scan_metric_rows_ok:
  "k \<le> length fp \<Longrightarrow> \<forall>l \<in> set (take k fp). metric_field_count l = N \<Longrightarrow>
   scan_metric_rows k N fp lno = Inr (lno + k, drop k fp)"
proof (induction k arbitrary: fp lno)
  case 0
  then show ?case by simp
next
  case (Suc k)
  then obtain l ls where fp: "fp = l # ls" by (cases fp) auto
  with Suc.prems have "metric_field_count l = N" "k \<le> length ls"
    "\<forall>l \<in> set (take k ls). metric_field_count l = N" by auto
  with Suc.IH[of ls "lno + 1"] fp show ?case
    by (simp add: readline_def metric_field_count_def)
qed

lemma scan_metric_rows_fail:
  "N \<noteq> 1 \<Longrightarrow> \<not> (k \<le> length fp \<and> (\<forall>l \<in> set (take k fp). metric_field_count l = N)) \<Longrightarrow>
   \<exists>j<k. scan_metric_rows k N fp lno = Inl (mass_matrix_error (lno + j + 1))"
proof (induction k arbitrary: fp lno)
  case 0
  then show ?case by simp
next
  case (Suc k)
  show ?case
  proof (cases fp)
    case Nil
    with Suc.prems(1) show ?thesis
      by (auto simp: readline_def lstrip_chars_def intro!: exI[of _ 0])
  next
    case (Cons l ls)
    show ?thesis
    proof (cases "metric_field_count l = N")
      case False
      with Cons show ?thesis
        by (auto simp: readline_def metric_field_count_def intro!: exI[of _ 0])
    next
      case True
      with Suc.prems(2) Cons
      have "\<not> (k \<le> length ls \<and> (\<forall>l \<in> set (take k ls). metric_field_count l = N))" by auto
      from Suc.IH[OF Suc.prems(1) this, of "lno + 1"] obtain j where
        "j < k" "scan_metric_rows k N ls (lno + 1) = Inl (mass_matrix_error (lno + 1 + j + 1))"
        by auto
      with True Cons show ?thesis
        by (auto simp: readline_def metric_field_count_def intro!: exI[of _ "Suc j"])
    qed
  qed
qed

lemma scan_metric_unfold:
  assumes "config_dict ''metric'' = Some (MStr m)" "metric_head_ok ops fp"
  shows "scan_metric ops fp config_dict lineno =
     (if \<not> ((m = ''diag_e'' \<and> strip (nth_line fp 2) = ''# Diagonal elements of inverse mass matrix:'')
           \<or> (m = ''dense_e'' \<and> strip (nth_line fp 2) = ''# Elements of inverse mass matrix:''))
      then Inl (mass_matrix_error (lineno + 3))
      else if m = ''diag_e''
      then Inr (lineno + 4, config_dict(''num_params'' \<mapsto> MInt (int (metric_field_count (nth_line fp 3)))), drop 4 fp)
      else (case scan_metric_rows (metric_field_count (nth_line fp 3) - 1) (metric_field_count (nth_line fp 3))
                   (drop 4 fp) (lineno + 4) of
              Inl e \<Rightarrow> Inl e
            | Inr (lineno', fp5) \<Rightarrow>
                Inr (lineno', config_dict(''num_params'' \<mapsto> MInt (int (metric_field_count (nth_line fp 3)))), fp5)))"
proof -
  have r0: "readline fp = (nth_line fp 0, drop (Suc 0) fp)"
    using readline_drop[of 0 fp] by simp
  have r1: "readline (drop (Suc 0) fp) = (nth_line fp (Suc 0), drop 2 fp)"
    using readline_drop[of "Suc 0" fp] by (simp add: numeral_2_eq_2)
  have r2: "readline (drop 2 fp) = (nth_line fp 2, drop 3 fp)"
    using readline_drop[of 2 fp] by (simp add: numeral_3_eq_3)
  have r3: "readline (drop 3 fp) = (nth_line fp 3, drop 4 fp)"
    using readline_drop[of 3 fp] by (simp add: eval_nat_numeral)
  show ?thesis
    using assms unfolding scan_metric_def metric_head_ok_def
    by (clarsimp simp: r0 r1 r2 r3 Let_def metric_field_count_def split: sum.splits)
qed

lemma scan_draws_loop_good:
  "\<forall>l \<in> set (draw_block fp). length (draw_fields l) = nc \<Longrightarrow>
   fd = None \<and> draw_block fp \<noteq> [] \<longrightarrow> float_array ops (draw_fields (hd (draw_block fp))) \<noteq> None \<Longrightarrow>
   scan_draws_loop ops nc fp lno dr fd =
     Inr (lno + length (draw_block fp), dr + length (draw_block fp),
          (case fd of Some a \<Rightarrow> Some a
           | None \<Rightarrow> (case draw_block fp of [] \<Rightarrow> None | l # _ \<Rightarrow> float_array ops (draw_fields l))),
          drop (length (draw_block fp)) fp)"
proof (induction fp arbitrary: lno dr fd)
  case Nil
  then show ?case by (simp add: draw_block_def split: option.splits)
next
  case (Cons l ls)
  show ?case
  proof (cases "is_data_line l")
    case False
    then show ?thesis
      by (auto simp: draw_block_def is_data_line_def Let_def split: option.splits)
  next
    case True
    then have blk: "draw_block (l # ls) = l # draw_block ls"
      by (simp add: draw_block_def)
    with Cons.prems have len: "length (draw_fields l) = nc"
      and rest: "\<forall>l \<in> set (draw_block ls). length (draw_fields l) = nc" by auto
    from Cons.prems(2) blk obtain a where
      a: "(case fd of None \<Rightarrow> float_array ops (draw_fields l) | Some b \<Rightarrow> Some b) = Some a"
      by (cases fd) auto
    have "scan_draws_loop ops nc (l # ls) lno dr fd
            = scan_draws_loop ops nc ls (lno + 1) (dr + 1) (Some a)"
      using True len a by (cases fd) (auto simp: is_data_line_def draw_fields_def Let_def)
    also have "\<dots> = Inr (lno + 1 + length (draw_block ls), dr + 1 + length (draw_block ls), Some a,
                         drop (length (draw_block ls)) ls)"
      using Cons.IH[OF rest, of "Some a" "lno + 1" "dr + 1"] by simp
    finally show ?thesis using blk a by (cases fd) auto
  qed
qed



lemma stepsize_ok: "py_float decimal_ops ''0.9'' = Some (9/10)"
  by code_simp

lemma thin_head_scan:
  "scan_stan_csv decimal_ops (thin_head @ ds) True =
     (case scan_draws decimal_ops ds thin_meta 8 of
        Inl e \<Rightarrow> Inl e | Inr (lineno5, dict5, fp5) \<Rightarrow> Inr dict5)"
  by (simp add: thin_head_def scan_stan_csv_def scan_column_names_def scan_warmup_def
      config_entry_def readline_def Let_def thin_meta_def
      strip_def lstrip_def rstrip_def isspace_def startswith_def endswith_def lstrip_chars_def
      scan_metric_def stepsize_ok)

lemma thin_rows_block: "draw_block (replicate n thin_row) = replicate n thin_row"
proof -
  have "is_data_line thin_row" by code_simp
  then show ?thesis by (simp add: draw_block_def)
qed

lemma thin_rows_scan:
  "\<exists>fd. scan_draws decimal_ops (replicate n thin_row) thin_meta 8
     = Inr (8 + n, thin_meta(''draws'' \<mapsto> MInt (int n), ''first_draw'' \<mapsto> fd), [])"
proof -
  have f: "length (draw_fields thin_row) = length [''lp__'', ''theta'']" by code_simp
  have p: "float_array decimal_ops (draw_fields thin_row) \<noteq> None" by code_simp
  have c: "thin_meta ''column_names'' = Some (MTuple [''lp__'', ''theta''])"
    by (simp add: thin_meta_def)
  let ?R = "replicate n thin_row"
  have p1: "\<forall>l \<in> set (draw_block ?R). length (draw_fields l) = length [''lp__'', ''theta'']"
    using f by (simp add: thin_rows_block)
  have p2: "(None :: rat list option) = None \<and> draw_block ?R \<noteq> [] \<longrightarrow>
              float_array decimal_ops (draw_fields (hd (draw_block ?R))) \<noteq> None"
    unfolding thin_rows_block using p by (cases "n = 0") simp_all
  have "\<exists>fd. scan_draws_loop decimal_ops (length [''lp__'', ''theta'']) ?R 8 0 None
                = Inr (8 + n, n, fd, [])"
    using scan_draws_loop_good[OF p1 p2, of 8 0] by (simp add: thin_rows_block)
  then show ?thesis
    using c by (auto simp: scan_draws_def py_len_def)
qed

lemma thin_file_scan:
  "\<exists>fd. scan_stan_csv decimal_ops (thin_file n) True
     = Inr (thin_meta(''draws'' \<mapsto> MInt (int n), ''first_draw'' \<mapsto> fd))"
  using thin_rows_scan[of n] by (auto simp: thin_file_def thin_head_scan)

text \<open>
  C2 (the code departs from the claim).  A sampling file that records \<open>num_samples = 1000\<close>
  and \<open>thin = 3\<close> should be checked against \<open>ceil(1000 / 3) = 334\<close> draws.  The scanner
  stores every configuration value as a string, and \<open>check_csv\<close> divides the integer by
  that string: with 334 draw rows, and with 333, the call ends in \<open>TypeError\<close> instead of
  accepting the file or reporting a draw-count mismatch.
\<close>

theorem check_csv_thin_type_error:
  "check_csv decimal_ops ''output.csv'' (thin_file 334) False True = Inl TypeError
   \<and> check_csv decimal_ops ''output.csv'' (thin_file 333) False True = Inl TypeError"
proof -
  have i: "py_int ''1000'' = Some 1000" by code_simp
  have "check_csv decimal_ops ''output.csv'' (thin_file n) False True = Inl TypeError" for n
    using thin_file_scan[of n]
    by (auto simp: check_csv_def draws_spec_of_def meta_int_def ceil_div_def thin_meta_def i)
  then show ?thesis by simp
qed

lemma scan_metric_lines:
  "scan_metric ops fp config_dict0 lineno0 =
     (let config_dict = (if config_dict0 ''metric'' = None
                         then config_dict0(''metric'' \<mapsto> MStr ''diag_e'') else config_dict0);
          metric = config_dict ''metric'';
          line1 = strip (nth_line fp 0);
          line2 = strip (nth_line fp 1);
          parts = py_split ''='' line2;
          line3 = strip (nth_line fp 2);
          num_params = metric_field_count (nth_line fp 3);
          config_dict' = config_dict(''num_params'' \<mapsto> MInt (int num_params))
      in if line1 \<noteq> ''# Adaptation terminated''
         then Inl (ValueError (''line '' @ str_nat (lineno0 + 1) @ '': expecting metric, found:''
                     @ [CHR 0x0A, CHR 0x09, CHR '' '', CHR 0x22] @ line1 @ [CHR 0x22]))
         else if length parts \<noteq> 2
         then Inl (ValueError ''cannot unpack the split step size line into label, stepsize'')
         else if \<not> startswith (parts ! 0) ''# Step size''
         then Inl (ValueError (''line '' @ str_nat (lineno0 + 2) @ '': expecting stepsize, found:''
                     @ [CHR 0x0A, CHR 0x09, CHR '' '', CHR 0x22] @ line2 @ [CHR 0x22]))
         else if py_float ops (strip (parts ! 1)) = None
         then Inl (ValueError (''line '' @ str_nat (lineno0 + 2) @ '': invalid stepsize: '' @ parts ! 1))
         else if \<not> ((metric = Some (MStr ''diag_e'')
                     \<and> line3 = ''# Diagonal elements of inverse mass matrix:'')
                  \<or> (metric = Some (MStr ''dense_e'')
                     \<and> line3 = ''# Elements of inverse mass matrix:''))
         then Inl (mass_matrix_error (lineno0 + 3))
         else if metric = Some (MStr ''diag_e'')
         then Inr (lineno0 + 4, config_dict', drop 4 fp)
         else (case scan_metric_rows (num_params - 1) num_params (drop 4 fp) (lineno0 + 4) of
                 Inl e \<Rightarrow> Inl e
               | Inr (lineno, fp5) \<Rightarrow> Inr (lineno, config_dict', fp5)))"
proof -
  have r0: "readline fp = (nth_line fp 0, drop 1 fp)"
    using readline_drop[of 0 fp] by simp
  have r1: "readline (drop 1 fp) = (nth_line fp 1, drop 2 fp)"
    using readline_drop[of 1 fp] by (simp add: eval_nat_numeral)
  have r2: "readline (drop 2 fp) = (nth_line fp 2, drop 3 fp)"
    using readline_drop[of 2 fp] by (simp add: eval_nat_numeral)
  have r3: "readline (drop 3 fp) = (nth_line fp 3, drop 4 fp)"
    using readline_drop[of 3 fp] by (simp add: eval_nat_numeral)
  show ?thesis
    by (simp only: scan_metric_def Let_def r0 r1 r2 r3 prod.case metric_field_count_def)
qed

lemma scan_metric_num_params:
  assumes "scan_metric ops fp d lineno = Inr (lineno', d', fp')"
  shows "d' = (if d ''metric'' = None then d(''metric'' \<mapsto> MStr ''diag_e'') else d)
                (''num_params'' \<mapsto> MInt (int (metric_field_count (nth_line fp 3))))"
  using assms unfolding scan_metric_lines Let_def
  by (auto split: if_splits sum.splits prod.splits)

lemma scan_metric_label_mismatch:
  assumes "config_dict ''metric'' = Some (MStr ''dense_e'')"
    and "strip (nth_line fp 2) = ''# Diagonal elements of inverse mass matrix:''"
  shows "\<exists>e. scan_metric ops fp config_dict lineno = Inl e"
  using assms unfolding scan_metric_lines Let_def
  by simp

lemma scan_metric_dense_rows:
  assumes "config_dict ''metric'' = Some (MStr ''dense_e'')"
    and "metric_head_ok ops fp"
    and "strip (nth_line fp 2) = ''# Elements of inverse mass matrix:''"
  shows "scan_metric ops fp config_dict lineno =
     (case scan_metric_rows (metric_field_count (nth_line fp 3) - 1) (metric_field_count (nth_line fp 3))
             (drop 4 fp) (lineno + 4) of
        Inl e \<Rightarrow> Inl e
      | Inr (lineno', fp5) \<Rightarrow>
          Inr (lineno', config_dict(''num_params'' \<mapsto> MInt (int (metric_field_count (nth_line fp 3)))), fp5))"
  using assms unfolding scan_metric_lines Let_def metric_head_ok_def
  by auto

text \<open>
  C6.  The metric scan of a file whose configuration declares \<open>metric = dense_e\<close>.  When the
  third line of the section is the diagonal label, the scan fails.  When the first two lines
  are accepted and the third is the dense label, the fourth line sets \<open>num_params\<close> to its
  number \<open>N\<close> of comma-separated fields; the scan then reads \<open>N - 1\<close> further lines and
  succeeds, having consumed exactly these, when each of them splits into \<open>N\<close> fields, and
  fails at one of them otherwise.
\<close>

theorem scan_metric_dense:
  assumes "config_dict ''metric'' = Some (MStr ''dense_e'')"
  shows
  "(strip (nth_line fp 2) = ''# Diagonal elements of inverse mass matrix:'' \<longrightarrow>
      (\<exists>e. scan_metric ops fp config_dict lineno = Inl e))
   \<and> (metric_head_ok ops fp \<and> strip (nth_line fp 2) = ''# Elements of inverse mass matrix:'' \<longrightarrow>
       (let N = metric_field_count (nth_line fp 3);
            rows = take (N - 1) (drop 4 fp)
        in if length rows = N - 1 \<and> (\<forall>l \<in> set rows. metric_field_count l = N)
           then scan_metric ops fp config_dict lineno
                  = Inr (lineno + 4 + (N - 1), config_dict(''num_params'' \<mapsto> MInt (int N)),
                         drop (4 + (N - 1)) fp)
           else (\<exists>j < N - 1. scan_metric ops fp config_dict lineno
                                = Inl (mass_matrix_error (lineno + 4 + j + 1)))))"
proof (intro conjI impI)
  assume "strip (nth_line fp 2) = ''# Diagonal elements of inverse mass matrix:''"
  with assms show "\<exists>e. scan_metric ops fp config_dict lineno = Inl e"
    by (rule scan_metric_label_mismatch)
next
  assume h: "metric_head_ok ops fp \<and> strip (nth_line fp 2) = ''# Elements of inverse mass matrix:''"
  define N where "N = metric_field_count (nth_line fp 3)"
  define rows where "rows = take (N - 1) (drop 4 fp)"
  have sm: "scan_metric ops fp config_dict lineno =
     (case scan_metric_rows (N - 1) N (drop 4 fp) (lineno + 4) of
        Inl e \<Rightarrow> Inl e
      | Inr (lineno', fp5) \<Rightarrow> Inr (lineno', config_dict(''num_params'' \<mapsto> MInt (int N)), fp5))"
    unfolding N_def
    using scan_metric_dense_rows[where config_dict = config_dict and ops = ops and fp = fp
        and lineno = lineno] assms h by blast
  have len: "length rows = N - 1 \<longleftrightarrow> N - 1 \<le> length (drop 4 fp)"
    by (auto simp: rows_def)
  have main: "if length rows = N - 1 \<and> (\<forall>l \<in> set rows. metric_field_count l = N)
           then scan_metric ops fp config_dict lineno
                  = Inr (lineno + 4 + (N - 1), config_dict(''num_params'' \<mapsto> MInt (int N)),
                         drop (4 + (N - 1)) fp)
           else (\<exists>j < N - 1. scan_metric ops fp config_dict lineno
                                = Inl (mass_matrix_error (lineno + 4 + j + 1)))"
  proof (cases "length rows = N - 1 \<and> (\<forall>l \<in> set rows. metric_field_count l = N)")
    case True
    then have "scan_metric_rows (N - 1) N (drop 4 fp) (lineno + 4)
                 = Inr (lineno + 4 + (N - 1), drop (N - 1) (drop 4 fp))"
      using len by (intro scan_metric_rows_ok) (auto simp: rows_def)
    then have res: "scan_metric ops fp config_dict lineno
                  = Inr (lineno + 4 + (N - 1), config_dict(''num_params'' \<mapsto> MInt (int N)),
                         drop (4 + (N - 1)) fp)"
      unfolding sm by (simp add: add.commute)
    show ?thesis unfolding if_P[OF True] by (rule res)
  next
    case False
    have N1: "N \<noteq> 1"
    proof
      assume "N = 1"
      then have "rows = []" by (simp add: rows_def)
      with \<open>N = 1\<close> False show False by simp
    qed
    from False len have
      "\<not> (N - 1 \<le> length (drop 4 fp) \<and> (\<forall>l \<in> set (take (N - 1) (drop 4 fp)). metric_field_count l = N))"
      unfolding rows_def by blast
    from scan_metric_rows_fail[OF N1 this, of "lineno + 4"] obtain j where
      j: "j < N - 1" and "scan_metric_rows (N - 1) N (drop 4 fp) (lineno + 4)
                     = Inl (mass_matrix_error (lineno + 4 + j + 1))"
      by blast
    then have "scan_metric ops fp config_dict lineno = Inl (mass_matrix_error (lineno + 4 + j + 1))"
      unfolding sm by simp
    with j show ?thesis unfolding if_not_P[OF False] by blast
  qed
  show "let N = metric_field_count (nth_line fp 3);
            rows = take (N - 1) (drop 4 fp)
        in if length rows = N - 1 \<and> (\<forall>l \<in> set rows. metric_field_count l = N)
           then scan_metric ops fp config_dict lineno
                  = Inr (lineno + 4 + (N - 1), config_dict(''num_params'' \<mapsto> MInt (int N)),
                         drop (4 + (N - 1)) fp)
           else (\<exists>j < N - 1. scan_metric ops fp config_dict lineno
                                = Inl (mass_matrix_error (lineno + 4 + j + 1)))"
    unfolding Let_def N_def[symmetric] rows_def[symmetric]
    by (rule main)
qed

text \<open>An instance: a dense 2 by 2 block is read to its end and leaves the draw row.\<close>

theorem scan_metric_dense_witness:
  "scan_metric decimal_ops dense_file [''metric'' \<mapsto> MStr ''dense_e''] 10
     = Inr (15, [''metric'' \<mapsto> MStr ''dense_e'', ''num_params'' \<mapsto> MInt 2], drop 5 dense_file)"
proof -
  let ?d = "[''metric'' \<mapsto> MStr ''dense_e''] :: rat config"
  have d: "?d ''metric'' = Some (MStr ''dense_e'')" by simp
  have hN: "metric_field_count (nth_line dense_file 3) = 2" by code_simp
  have h1: "metric_head_ok decimal_ops dense_file" by code_simp
  have h2: "strip (nth_line dense_file 2) = ''# Elements of inverse mass matrix:''" by code_simp
  have h3: "length (take (2 - 1) (drop 4 dense_file)) = 2 - 1
            \<and> (\<forall>l \<in> set (take (2 - 1) (drop 4 dense_file)). metric_field_count l = 2)"
    by code_simp
  note th = scan_metric_dense[where config_dict = "?d" and ops = decimal_ops and fp = dense_file
      and lineno = 10, OF d, unfolded Let_def hN, THEN conjunct2, THEN mp, OF conjI[OF h1 h2]]
  have "scan_metric decimal_ops dense_file ?d 10
          = Inr (10 + 4 + (2 - 1), ?d(''num_params'' \<mapsto> MInt (int 2)), drop (4 + (2 - 1)) dense_file)"
    using th unfolding if_P[OF h3] .
  then show ?thesis by simp
qed

lemma scan_warmup_dict: "fst (snd (scan_warmup fp d n)) = d"
  by (simp add: scan_warmup_def split_beta)

lemma scan_draws_dict:
  assumes "scan_draws ops fp d lineno = Inr (lineno', d', fp')"
  shows "\<exists>a b. d' = d(''draws'' \<mapsto> a, ''first_draw'' \<mapsto> b)"
  using assms unfolding scan_draws_def
  by (auto split: option.splits sum.splits)

text \<open>
  C4 (as amended).  In the metadata of a successfully scanned file, \<open>column_names\<close> holds the
  fields of the header line.  Without the metric section (\<open>is_sampling\<close> false) \<open>num_params\<close> is
  \<open>len(column_names) - 1\<close>.  With it, \<open>num_params\<close> is the number of comma-separated fields of
  the fourth line of the metric section, whatever the number of columns is: the scan does not
  compare the two.
\<close>

theorem scan_stan_csv_num_params:
  assumes "scan_stan_csv (ops :: 'f float_ops) fp is_sampling = Inr meta"
  shows "(let (n1, d1, fp1) = scan_config fp (Map.empty :: 'f config) 0;
              (n2, d2, fp2) = scan_column_names fp1 d1 n1;
              (n3, d3, fp3) = scan_warmup fp2 d2 n2;
              names = py_split '','' (strip (nth_line fp1 0))
          in meta ''column_names'' = Some (MTuple names)
             \<and> meta ''num_params''
                 = Some (MInt (if is_sampling then int (metric_field_count (nth_line fp3 3))
                               else int (length names) - 1)))"
proof -
  obtain n1 d1 fp1 where c: "scan_config fp (Map.empty :: 'f config) 0 = (n1, d1, fp1)"
    by (cases "scan_config fp (Map.empty :: 'f config) 0") auto
  define names where "names = py_split '','' (strip (nth_line fp1 0))"
  define d2 where "d2 = d1(''column_names'' \<mapsto> MTuple names,
                           ''num_params'' \<mapsto> MInt (int (length names) - 1))"
  have h: "scan_column_names fp1 d1 n1 = (n1 + 1, d2, drop 1 fp1)"
    using readline_drop[of 0 fp1]
    by (simp add: scan_column_names_def Let_def d2_def names_def)
  obtain n3 fp3 where w: "scan_warmup (drop 1 fp1) d2 (n1 + 1) = (n3, d2, fp3)"
    using scan_warmup_dict[of "drop 1 fp1" d2 "n1 + 1"]
    by (cases "scan_warmup (drop 1 fp1) d2 (n1 + 1)") auto
  have goal: "meta ''column_names'' = Some (MTuple names)
             \<and> meta ''num_params''
                 = Some (MInt (if is_sampling then int (metric_field_count (nth_line fp3 3))
                               else int (length names) - 1))"
  proof (cases is_sampling)
    case False
    with assms c h w obtain n5 fp5 where "scan_draws ops fp3 d2 n3 = Inr (n5, meta, fp5)"
      by (auto simp: scan_stan_csv_def split: sum.splits)
    from scan_draws_dict[OF this] False show ?thesis by (auto simp: d2_def)
  next
    case True
    with assms c h w obtain n4 d4 fp4 n5 fp5 where
      m: "scan_metric ops fp3 d2 n3 = Inr (n4, d4, fp4)" and
      s: "scan_draws ops fp4 d4 n4 = Inr (n5, meta, fp5)"
      by (auto simp: scan_stan_csv_def split: sum.splits)
    from scan_draws_dict[OF s] scan_metric_num_params[OF m] True show ?thesis
      by (auto simp: d2_def)
  qed
  show ?thesis
    unfolding c h w Let_def prod.case names_def[symmetric] by (rule goal)
qed

theorem scan_stan_csv_num_params_witness:
  "(case scan_stan_csv decimal_ops mismatch_file True of
      Inl e \<Rightarrow> False
    | Inr meta \<Rightarrow> meta ''column_names'' = Some (MTuple [''lp__'', ''a'', ''b''])
                  \<and> meta ''num_params'' = Some (MInt 1))"
proof -
  have ok: "\<not> isl (scan_stan_csv decimal_ops mismatch_file True)" by code_simp
  then obtain meta where m: "scan_stan_csv decimal_ops mismatch_file True = Inr meta"
    by (cases "scan_stan_csv decimal_ops mismatch_file True") auto
  have c: "scan_config mismatch_file (Map.empty :: rat config) 0
             = (1, [''metric'' \<mapsto> MStr ''diag_e''], drop 1 mismatch_file)"
    by (simp add: mismatch_file_def config_entry_def Let_def
      strip_def lstrip_def rstrip_def isspace_def startswith_def endswith_def lstrip_chars_def)
  have names: "py_split '','' (strip (nth_line (drop 1 mismatch_file) 0)) = [''lp__'', ''a'', ''b'']"
    by code_simp
  have w: "snd (snd (scan_warmup (snd (snd (scan_column_names (drop 1 mismatch_file) d (1::nat))))
                       (fst (snd (scan_column_names (drop 1 mismatch_file) d 1)))
                       (fst (scan_column_names (drop 1 mismatch_file) d 1))))
             = drop 2 mismatch_file"
    if "d = [''metric'' \<mapsto> MStr ''diag_e'']" for d :: "rat config"
    using that
    by (simp add: scan_warmup_def scan_column_names_def readline_def mismatch_file_def Let_def)
  have cnt: "metric_field_count (nth_line (drop 2 mismatch_file) 3) = 1" by code_simp
  from scan_stan_csv_num_params[OF m] c names w[OF refl] cnt
  have "meta ''column_names'' = Some (MTuple [''lp__'', ''a'', ''b''])
        \<and> meta ''num_params'' = Some (MInt 1)"
    by (simp add: Let_def split_beta)
  with m show ?thesis by simp
qed

text \<open>
  C4 (counterexample).  A file with three columns and a one-field mass-matrix line is scanned
  without error, and its \<open>num_params\<close> is 1, not \<open>len(column_names) - 1 = 2\<close>.
\<close>

theorem num_params_mismatch_accepted:
  "(case scan_stan_csv decimal_ops mismatch_file True of
      Inl e \<Rightarrow> False
    | Inr meta \<Rightarrow> meta ''column_names'' = Some (MTuple [''lp__'', ''a'', ''b''])
                  \<and> meta ''num_params'' = Some (MInt 1)
                  \<and> meta ''num_params'' \<noteq> Some (MInt (int (length [''lp__'', ''a'', ''b'']) - 1)))"
  by code_simp

text \<open>
  C8 (counterexample).  The comment \<open># file = output.csv\<close> is a \<open>key = value\<close> line without the
  default mark; it is consumed, and nothing is recorded under \<open>file\<close>.
\<close>

theorem csv_file_entry_not_recorded:
  "fst (scan_config [''# file = output.csv''] (Map.empty :: rat config) 0) = 1
   \<and> fst (snd (scan_config [''# file = output.csv''] (Map.empty :: rat config) 0)) ''file'' = None
   \<and> fst (snd (scan_config [''# file = output.csv''] (Map.empty :: rat config) 0)) ''data_file'' = None"
  by code_simp

text \<open>
  C8 (as amended).  The config scan consumes the leading comment lines \<open>config_block fp\<close> and
  applies \<open>config_entry\<close> to each stripped line in turn.  A line that ends with \<open>(Default)\<close>
  leaves the dictionary unchanged.  Any other line that splits at \<open>=\<close> into exactly a key and a
  value records the stripped value under the stripped key, except for the key \<open>file\<close>: its value
  is recorded under \<open>data_file\<close> when it does not end with \<open>csv\<close>, and is not recorded at all
  when it does.  A line that does not split into exactly two parts records nothing.
\<close>

theorem scan_config_entries:
  "scan_config fp d lineno
     = (lineno + length (config_block fp),
        foldl config_entry d (map strip (config_block fp)),
        drop (length (config_block fp)) fp)
   \<and> (\<forall>line. endswith line ''(Default)'' \<longrightarrow> config_entry d line = d)
   \<and> (\<forall>line k v.
         \<not> endswith line ''(Default)''
         \<and> py_split ''='' (lstrip_chars [CHR '' '', CHR ''#'', CHR 0x09] line) = [k, v] \<longrightarrow>
         config_entry d line
           = (if strip k = ''file''
              then (if endswith v ''csv'' then d else d(''data_file'' \<mapsto> MStr (strip v)))
              else d(strip k \<mapsto> MStr (strip v))))
   \<and> (\<forall>line. length (py_split ''='' (lstrip_chars [CHR '' '', CHR ''#'', CHR 0x09] line)) \<noteq> 2 \<longrightarrow>
         config_entry d line = d)"
proof (intro conjI allI impI)
  show "scan_config fp d lineno
     = (lineno + length (config_block fp),
        foldl config_entry d (map strip (config_block fp)),
        drop (length (config_block fp)) fp)"
    by (rule scan_config_fold)
next
  fix line assume "endswith line ''(Default)''"
  then show "config_entry d line = d" by (simp add: config_entry_def)
next
  fix line k v
  assume "\<not> endswith line ''(Default)''
         \<and> py_split ''='' (lstrip_chars [CHR '' '', CHR ''#'', CHR 0x09] line) = [k, v]"
  then show "config_entry d line
           = (if strip k = ''file''
              then (if endswith v ''csv'' then d else d(''data_file'' \<mapsto> MStr (strip v)))
              else d(strip k \<mapsto> MStr (strip v)))"
    by (simp add: config_entry_def Let_def)
next
  fix line
  assume "length (py_split ''='' (lstrip_chars [CHR '' '', CHR ''#'', CHR 0x09] line)) \<noteq> 2"
  then show "config_entry d line = d" by (simp add: config_entry_def Let_def)
qed

theorem scan_config_entries_witness:
  "scan_config config_example (Map.empty :: rat config) 0
     = (4, [''num_samples'' \<mapsto> MStr ''200'', ''data_file'' \<mapsto> MStr ''data.R''],
        drop 4 config_example)"
proof -
  let ?e = "Map.empty :: rat config"
  let ?l1 = "''# method = sample (Default)''"
  let ?l2 = "''#   num_samples = 200''"
  let ?l3 = "''# file = data.R''"
  let ?l4 = "''# file = output.csv''"
  have len: "length (config_block config_example) = 4" by code_simp
  have blk: "map strip (config_block config_example) = [?l1, ?l2, ?l3, ?l4]" by code_simp
  have a1: "endswith ?l1 ''(Default)''" by code_simp
  have a2: "\<not> endswith ?l2 ''(Default)''
           \<and> py_split ''='' (lstrip_chars [CHR '' '', CHR ''#'', CHR 0x09] ?l2) = [''num_samples '', '' 200'']"
    by code_simp
  have a3: "\<not> endswith ?l3 ''(Default)''
           \<and> py_split ''='' (lstrip_chars [CHR '' '', CHR ''#'', CHR 0x09] ?l3) = [''file '', '' data.R'']"
    by code_simp
  have a4: "\<not> endswith ?l4 ''(Default)''
           \<and> py_split ''='' (lstrip_chars [CHR '' '', CHR ''#'', CHR 0x09] ?l4) = [''file '', '' output.csv'']"
    by code_simp
  have s: "strip ''num_samples '' = ''num_samples''" "strip '' 200'' = ''200''"
    "strip ''file '' = ''file''" "strip '' data.R'' = ''data.R''"
    "\<not> endswith '' data.R'' ''csv''" "endswith '' output.csv'' ''csv''"
    by code_simp+
  have e1: "config_entry d ?l1 = d" for d :: "rat config"
    using scan_config_entries[of config_example d 0] a1 by blast
  have e2: "config_entry d ?l2 = d(''num_samples'' \<mapsto> MStr ''200'')" for d :: "rat config"
    using scan_config_entries[of config_example d 0] a2 by (simp add: s)
  have e3: "config_entry d ?l3 = d(''data_file'' \<mapsto> MStr ''data.R'')" for d :: "rat config"
    using scan_config_entries[of config_example d 0] a3 by (simp add: s)
  have e4: "config_entry d ?l4 = d" for d :: "rat config"
    using scan_config_entries[of config_example d 0] a4 by (simp add: s)
  have "scan_config config_example ?e 0
     = (0 + length (config_block config_example),
        foldl config_entry ?e (map strip (config_block config_example)),
        drop (length (config_block config_example)) config_example)"
    using scan_config_entries[of config_example ?e 0] by blast
  then show ?thesis
    unfolding blk len by (simp add: e1 e2 e3 e4)
qed

section \<open>Properties of the dump codec\<close>

lemmas strip_eval = strip_def lstrip_def rstrip_def isspace_def

text \<open>
  C3.  For floats \<open>x1 \<dots> x6\<close> whose text is \<open>1.0 \<dots> 6.0\<close>, the 2 by 3 array with rows
  \<open>[x1, x2, x3]\<close> and \<open>[x4, x5, x6]\<close> is written with its values in column-major order and its
  dimensions as given, and the decoder rebuilds the same array from that right-hand side.
\<close>

theorem rdump_array_column_major:
  assumes "float_text ops x1 ''1.0''" "float_text ops x2 ''2.0''" "float_text ops x3 ''3.0''"
    "float_text ops x4 ''4.0''" "float_text ops x5 ''5.0''" "float_text ops x6 ''6.0''"
  shows "rdump_array ops key [2, 3] (FloatData [x1, x2, x3, x4, x5, x6])
           = key @ '' <- structure(c(1.0, 4.0, 2.0, 5.0, 3.0, 6.0), .Dim = c(2, 3))''
         \<and> parse_rdump_value ops ''structure(c(1.0, 4.0, 2.0, 5.0, 3.0, 6.0), .Dim = c(2, 3))''
           = Inr (NdArray [2, 3] (FloatData [x1, x2, x3, x4, x5, x6]))"
proof
  have idx: "[0..<6] = [0, 1, 2, 3, 4, 5]" by (simp add: upt_rec)
  have d: "str_nat 2 = ''2''" "str_nat 3 = ''3''" by code_simp+
  show "rdump_array ops key [2, 3] (FloatData [x1, x2, x3, x4, x5, x6])
           = key @ '' <- structure(c(1.0, 4.0, 2.0, 5.0, 3.0, 6.0), .Dim = c(2, 3))''"
    using assms
    by (simp add: rdump_array_def t_flat_def str_elems_def str_tuple_def float_text_def idx d)
  have m: "match_structure ''structure(c(1.0, 4.0, 2.0, 5.0, 3.0, 6.0), .Dim = c(2, 3))''
             = Some (''1.0, 4.0, 2.0, 5.0, 3.0, 6.0'', Some ''2, 3'')"
    by code_simp
  have v: "py_split '','' ''1.0, 4.0, 2.0, 5.0, 3.0, 6.0''
             = [''1.0'', '' 4.0'', '' 2.0'', '' 5.0'', '' 3.0'', '' 6.0'']"
    by code_simp
  have s: "strip_num ''1.0'' = ''1.0''" "strip_num '' 4.0'' = ''4.0''" "strip_num '' 2.0'' = ''2.0''"
    "strip_num '' 5.0'' = ''5.0''" "strip_num '' 3.0'' = ''3.0''" "strip_num '' 6.0'' = ''6.0''"
    by code_simp+
  have f: "float_list ops [''1.0'', '' 4.0'', '' 2.0'', '' 5.0'', '' 3.0'', '' 6.0'']
             = Some [x1, x4, x2, x5, x3, x6]"
    using assms by (simp add: py_float_def s float_text_def)
  have i: "int_list (py_split '','' ''2, 3'') = Some [2, 3]" by code_simp
  have r: "reshape_dims (length [x1, x4, x2, x5, x3, x6]) [2, 3] = Some [2, 3]"
    by (simp add: reshape_dims_def)
  have st: "startswith ''structure(c(1.0, 4.0, 2.0, 5.0, 3.0, 6.0), .Dim = c(2, 3))'' ''structure''"
    by code_simp
  show "parse_rdump_value ops ''structure(c(1.0, 4.0, 2.0, 5.0, 3.0, 6.0), .Dim = c(2, 3))''
           = Inr (NdArray [2, 3] (FloatData [x1, x2, x3, x4, x5, x6]))"
    unfolding parse_rdump_value_def
    by (simp only: st if_True m option.case prod.case v f i r)
       (simp add: reshape_f_def idx)
qed

theorem rdump_array_column_major_witness:
  "rdump_array decimal_ops ''x'' [2, 3] (FloatData [1, 2, 3, 4, 5, 6])
           = ''x <- structure(c(1.0, 4.0, 2.0, 5.0, 3.0, 6.0), .Dim = c(2, 3))''
   \<and> parse_rdump_value decimal_ops ''structure(c(1.0, 4.0, 2.0, 5.0, 3.0, 6.0), .Dim = c(2, 3))''
           = Inr (NdArray [2, 3] (FloatData [1, 2, 3, 4, 5, 6]))"
proof -
  have "float_text decimal_ops 1 ''1.0''" "float_text decimal_ops 2 ''2.0''"
    "float_text decimal_ops 3 ''3.0''" "float_text decimal_ops 4 ''4.0''"
    "float_text decimal_ops 5 ''5.0''" "float_text decimal_ops 6 ''6.0''"
    by code_simp+
  from rdump_array_column_major[OF this, of "''x''"] show ?thesis by simp
qed

lemma arrow_Cons:
  "str_contains ''<-'' (c # cs)
     \<longleftrightarrow> (c = CHR ''<'' \<and> cs \<noteq> [] \<and> hd cs = CHR ''-'') \<or> str_contains ''<-'' cs"
  by (cases cs) (auto simp: startswith_def)

lemma arrow_Nil: "\<not> str_contains ''<-'' []"
  by simp

lemma hd_universal_newlines:
  "universal_newlines (d # cs) \<noteq> []
   \<and> hd (universal_newlines (d # cs)) = (if d = CHR 0x0D then CHR 0x0A else d)"
  by (cases cs) auto

lemma arrow_universal_newlines:
  "str_contains ''<-'' (universal_newlines t) \<Longrightarrow> str_contains ''<-'' t"
proof (induction t rule: universal_newlines.induct)
  case 1
  then show ?case by simp
next
  case (2 c)
  then show ?case by (auto simp: startswith_def split: if_splits)
next
  case (3 c d cs)
  note arrow = \<open>str_contains ''<-'' (universal_newlines (c # d # cs))\<close>
  consider (crlf) "c = CHR 0x0D" "d = CHR 0x0A" | (cr) "c = CHR 0x0D" "d \<noteq> CHR 0x0A"
    | (other) "c \<noteq> CHR 0x0D" by blast
  then show ?case
  proof cases
    case crlf
    with arrow have "str_contains ''<-'' (CHR 0x0A # universal_newlines cs)" by simp
    then have "str_contains ''<-'' (universal_newlines cs)"
      unfolding arrow_Cons[of "CHR 0x0A"] by simp
    with 3(1) crlf have "str_contains ''<-'' cs" by blast
    then show ?thesis
      unfolding arrow_Cons[of c] arrow_Cons[of d] by blast
  next
    case cr
    with arrow have "str_contains ''<-'' (CHR 0x0A # universal_newlines (d # cs))" by simp
    then have "str_contains ''<-'' (universal_newlines (d # cs))"
      unfolding arrow_Cons[of "CHR 0x0A"] by simp
    with 3(2) cr have "str_contains ''<-'' (d # cs)" by blast
    then show ?thesis
      unfolding arrow_Cons[of c] by blast
  next
    case other
    with arrow have "str_contains ''<-'' (c # universal_newlines (d # cs))" by simp
    then consider "c = CHR ''<''" "hd (universal_newlines (d # cs)) = CHR ''-''"
      | "str_contains ''<-'' (universal_newlines (d # cs))"
      unfolding arrow_Cons[of c] by blast
    then show ?thesis
    proof cases
      case 1
      with hd_universal_newlines[of d cs] have "d = CHR ''-''"
        by (simp split: if_splits)
      with 1 show ?thesis unfolding arrow_Cons[of c] by simp
    next
      case 2
      with 3(3) other have "str_contains ''<-'' (d # cs)" by blast
      then show ?thesis unfolding arrow_Cons[of c] by blast
    qed
  qed
qed

lemma concat_readlines: "concat (readlines t) = t"
  by (induction t) (auto split: list.splits)

lemma arrow_append_left: "str_contains ''<-'' b \<Longrightarrow> str_contains ''<-'' (a @ b)"
  by (induction a) (auto simp: arrow_Cons simp del: str_contains.simps)

lemma arrow_append_right: "str_contains ''<-'' a \<Longrightarrow> str_contains ''<-'' (a @ b)"
proof (induction a)
  case Nil
  then show ?case by simp
next
  case (Cons c a)
  then show ?case
    by (cases a) (auto simp: arrow_Cons simp del: str_contains.simps)
qed

lemma arrow_concat: "l \<in> set ls \<Longrightarrow> str_contains ''<-'' l \<Longrightarrow> str_contains ''<-'' (concat ls)"
proof (induction ls)
  case Nil
  then show ?case by simp
next
  case (Cons x ls)
  then show ?case
    by (auto intro: arrow_append_left arrow_append_right)
qed

text \<open>
  C9.  A text without any occurrence of the assignment marker has no statement: \<open>rload\<close>
  returns \<open>None\<close>.
\<close>

theorem rload_without_arrow:
  assumes "\<not> str_contains ''<-'' text"
  shows "rload ops text = Inr None"
proof -
  have "no_arrow l" if "l \<in> set (readlines (universal_newlines text))" for l
  proof -
    have "str_contains ''<-'' (universal_newlines text)" if "str_contains ''<-'' l"
      using arrow_concat[OF \<open>l \<in> set (readlines (universal_newlines text))\<close> that]
      by (simp add: concat_readlines)
    with assms arrow_universal_newlines show ?thesis
      unfolding no_arrow_def by blast
  qed
  then have "dropWhile no_arrow (readlines (universal_newlines text)) = []"
    unfolding dropWhile_eq_Nil_conv by blast
  then show ?thesis
    unfolding rload_def Let_def by (simp only: list.case)
qed

text \<open>An instance: a file of a comment and an assignment written with \<open>=\<close>.\<close>

theorem rload_without_arrow_witness:
  "rload decimal_ops (''# comment only'' @ [CHR 0x0A] @ ''x = c(1, 2)'' @ [CHR 0x0A]) = Inr None"
proof -
  have "\<not> str_contains ''<-'' (''# comment only'' @ [CHR 0x0A] @ ''x = c(1, 2)'' @ [CHR 0x0A])"
    by code_simp
  then show ?thesis by (rule rload_without_arrow)
qed

end
